theory Spec2Isabelle
  imports Main
begin

section \<open>Telethon events/common.py: chat filters and lazy chat resolution\<close>

text \<open>
  A shallow embedding of \<^verbatim>\<open>src/telethon/events/common.py\<close>: the helper
  \<^verbatim>\<open>_into_id_set\<close>, the class \<^verbatim>\<open>EventBuilder\<close> (\<^verbatim>\<open>resolve\<close>, \<^verbatim>\<open>_filter_event\<close>), the class
  \<^verbatim>\<open>EventCommon\<close> (\<^verbatim>\<open>__init__\<close>, \<^verbatim>\<open>input_chat\<close>, \<^verbatim>\<open>chat\<close>, \<^verbatim>\<open>chat_id\<close>) and the decorator
  \<^verbatim>\<open>name_inner_event\<close>.

  Python exceptions are values of the type \<open>error\<close>; a coroutine that may raise returns
  \<open>error + 'a\<close>. Every mutation of \<^verbatim>\<open>self\<close> is explicit: a method takes the object and
  returns the updated object. Every call of a method of the Telegram client is appended to
  a call log that is threaded through the coroutines, and the client answers a call as a
  function of the log so far, so its answers may change from one call to the next.
\<close>

subsection \<open>Data\<close>

text \<open>The three \<^verbatim>\<open>Peer\<close> constructors of the TL schema (\<^verbatim>\<open>SUBCLASS_OF_ID == 0x2d45687\<close>).\<close>

datatype peer = PeerUser int | PeerChat int | PeerChannel int

text \<open>The \<^verbatim>\<open>InputPeer\<close> constructors; the second argument is the access hash.\<close>

datatype input_peer =
    InputPeerEmpty
  | InputPeerSelf
  | InputPeerUser int int
  | InputPeerChat int
  | InputPeerChannel int int

text \<open>A full entity, as the client returns it; only its identity matters here.\<close>

datatype entity = User int | Chat int | Channel int

text \<open>
  \<open>ValueError\<close> is what \<^verbatim>\<open>get_input_entity\<close> raises when it cannot find the entity;
  \<open>AttributeError\<close> and \<open>TypeError\<close> are raised by the interpreter; \<open>OtherError\<close>
  stands for every other failure of a client call (an \<^verbatim>\<open>RPCError\<close>, a timeout).
\<close>

datatype error = ValueError | AttributeError | TypeError | OtherError string

text \<open>
  One element of the \<^verbatim>\<open>chats\<close> argument of an event builder, by the three branches of
  the loop of \<^verbatim>\<open>_into_id_set\<close>: an \<^verbatim>\<open>int\<close>, a \<^verbatim>\<open>Peer\<close> object, or anything else
  (a username, a phone number, an input peer, \<open>\<dots>\<close>), which only the client can resolve
  and which is named here by a string.
\<close>

datatype chat_ref = IntRef int | PeerRef peer | OtherRef string

text \<open>
  The values the attribute \<^verbatim>\<open>EventBuilder.chats\<close> holds besides \<^verbatim>\<open>None\<close>: a single
  reference that is not list-like, a list of references, or, after \<^verbatim>\<open>resolve\<close>, the
  \<^verbatim>\<open>set\<close> of marked IDs that \<^verbatim>\<open>_into_id_set\<close> returned.
\<close>

datatype chats_value = One chat_ref | Many "chat_ref list" | IdSet "int set"

text \<open>A message as \<^verbatim>\<open>get_messages\<close> returns it: its \<^verbatim>\<open>_chat\<close> and \<^verbatim>\<open>_input_chat\<close>.\<close>

record message =
  msg_chat :: "entity option"
  msg_input_chat :: "input_peer option"

text \<open>A dialog as \<^verbatim>\<open>iter_dialogs\<close> yields it: \<^verbatim>\<open>id\<close>, \<^verbatim>\<open>entity\<close>, \<^verbatim>\<open>input_entity\<close>.\<close>

record dialog =
  d_id :: int
  d_entity :: entity
  d_input_entity :: input_peer

text \<open>
  The calls of client methods, in the order they are made. \<open>NextDialog d\<close> records that
  the \<^verbatim>\<open>async for\<close> loop took the dialog \<open>d\<close> from the generator of \<^verbatim>\<open>iter_dialogs\<close>.
\<close>

datatype call =
    GetInputEntity chat_ref
  | GetMe
  | GetMessages int
  | IterDialogs
  | NextDialog dialog
  | GetEntity "input_peer option"

text \<open>
  The client: what each method answers, given the calls made before. \<^verbatim>\<open>get_messages\<close>
  with a single id returns the message or \<^verbatim>\<open>None\<close>; the generator of \<^verbatim>\<open>iter_dialogs\<close>
  yields finitely many dialogs and then either stops or raises.
\<close>

record client =
  answer_get_input_entity :: "call list \<Rightarrow> chat_ref \<Rightarrow> error + input_peer"
  answer_get_me :: "call list \<Rightarrow> error + input_peer"
  answer_get_messages :: "call list \<Rightarrow> int \<Rightarrow> error + message option"
  answer_iter_dialogs :: "call list \<Rightarrow> dialog list \<times> error option"
  answer_get_entity :: "call list \<Rightarrow> input_peer option \<Rightarrow> error + entity"

text \<open>
  The function \<^verbatim>\<open>utils.get_peer_id\<close> is imported from a module that is not part of the
  source at hand, so it is a parameter of the model, one field for each kind of argument
  that common.py passes to it: a \<^verbatim>\<open>Peer\<close> object (the specification: a typed peer
  reference maps deterministically to exactly one canonical ID), an input peer coming
  back from the client (for which it may raise), and \<^verbatim>\<open>None\<close>.
\<close>

record utils =
  peer_id :: "peer \<Rightarrow> int"
  input_peer_id :: "input_peer \<Rightarrow> error + int"
  none_peer_id :: "error + int"

text \<open>\<^verbatim>\<open>utils.get_peer_id(x)\<close> where \<^verbatim>\<open>x\<close> is a \<^verbatim>\<open>Peer\<close> object or \<^verbatim>\<open>None\<close>.\<close>

definition get_peer_id :: "utils \<Rightarrow> peer option \<Rightarrow> error + int" where
  "get_peer_id u x = (case x of None \<Rightarrow> none_peer_id u | Some p \<Rightarrow> Inr (peer_id u p))"

subsection \<open>Client calls\<close>

definition get_input_entity ::
  "client \<Rightarrow> chat_ref \<Rightarrow> call list \<Rightarrow> (error + input_peer) \<times> call list" where
  "get_input_entity cl r log = (answer_get_input_entity cl log r, log @ [GetInputEntity r])"

definition get_me :: "client \<Rightarrow> call list \<Rightarrow> (error + input_peer) \<times> call list" where
  "get_me cl log = (answer_get_me cl log, log @ [GetMe])"

definition get_messages ::
  "client \<Rightarrow> int \<Rightarrow> call list \<Rightarrow> (error + message option) \<times> call list" where
  "get_messages cl i log = (answer_get_messages cl log i, log @ [GetMessages i])"

definition iter_dialogs ::
  "client \<Rightarrow> call list \<Rightarrow> (dialog list \<times> error option) \<times> call list" where
  "iter_dialogs cl log = (answer_iter_dialogs cl log, log @ [IterDialogs])"

definition get_entity ::
  "client \<Rightarrow> input_peer option \<Rightarrow> call list \<Rightarrow> (error + entity) \<times> call list" where
  "get_entity cl x log = (answer_get_entity cl log x, log @ [GetEntity x])"

subsection \<open>\<^verbatim>\<open>_into_id_set\<close> (lines 10 to 38)\<close>

text \<open>
  The loop \<^verbatim>\<open>for chat in chats\<close> with the accumulator \<^verbatim>\<open>result\<close>. An exception of a
  client call, or of \<^verbatim>\<open>get_peer_id\<close> on what the client returned, leaves the loop.
\<close>

fun into_id_loop ::
  "utils \<Rightarrow> client \<Rightarrow> chat_ref list \<Rightarrow> int set \<Rightarrow> call list \<Rightarrow> (error + int set) \<times> call list"
where
  "into_id_loop u cl [] result log = (Inr result, log)"
| "into_id_loop u cl (IntRef n # chats) result log =
     (if n < 0 then into_id_loop u cl chats (insert n result) log
      else into_id_loop u cl chats
             (result \<union> {peer_id u (PeerUser n), peer_id u (PeerChat n), peer_id u (PeerChannel n)})
             log)"
| "into_id_loop u cl (PeerRef p # chats) result log =
     into_id_loop u cl chats (insert (peer_id u p) result) log"
| "into_id_loop u cl (OtherRef r # chats) result log =
     (case get_input_entity cl (OtherRef r) log of
        (Inl e, log1) \<Rightarrow> (Inl e, log1)
      | (Inr chat, log1) \<Rightarrow>
          (case (if chat = InputPeerSelf then get_me cl log1 else (Inr chat, log1)) of
             (Inl e, log2) \<Rightarrow> (Inl e, log2)
           | (Inr chat2, log2) \<Rightarrow>
               (case input_peer_id u chat2 of
                  Inl e \<Rightarrow> (Inl e, log2)
                | Inr i \<Rightarrow> into_id_loop u cl chats (insert i result) log2)))"

text \<open>
  \<^verbatim>\<open>if not utils.is_list_like(chats): chats = (chats,)\<close>. A \<^verbatim>\<open>set\<close> of integers is
  list-like; the loop visits its elements in some order, here the ascending one (the
  result of the loop over integers does not depend on the order).
\<close>

definition as_list :: "chats_value \<Rightarrow> chat_ref list" where
  "as_list chats =
     (case chats of
        One c \<Rightarrow> [c]
      | Many cs \<Rightarrow> cs
      | IdSet s \<Rightarrow> map IntRef (sorted_list_of_set s))"

definition into_id_set ::
  "utils \<Rightarrow> client \<Rightarrow> chats_value option \<Rightarrow> call list \<Rightarrow> (error + int set option) \<times> call list"
where
  "into_id_set u cl chats log =
     (case chats of
        None \<Rightarrow> (Inr None, log)
      | Some v \<Rightarrow>
          (case into_id_loop u cl (as_list v) {} log of
             (Inl e, log1) \<Rightarrow> (Inl e, log1)
           | (Inr result, log1) \<Rightarrow> (Inr (Some result), log1)))"

subsection \<open>\<^verbatim>\<open>EventBuilder\<close> (lines 41 to 81)\<close>

record event_builder =
  chats :: "chats_value option"
  blacklist_chats :: bool
  self_id :: "int option"

definition init_builder :: "chats_value option \<Rightarrow> bool \<Rightarrow> event_builder" where
  "init_builder cs bl = \<lparr>chats = cs, blacklist_chats = bl, self_id = None\<rparr>"

text \<open>The attribute \<^verbatim>\<open>user_id\<close> of what \<^verbatim>\<open>get_me(input_peer=True)\<close> returned.\<close>

definition user_id :: "input_peer \<Rightarrow> error + int" where
  "user_id x = (case x of InputPeerUser i h \<Rightarrow> Inr i | _ \<Rightarrow> Inl AttributeError)"

text \<open>
  \<^verbatim>\<open>resolve\<close>: two assignments, each after an \<^verbatim>\<open>await\<close>. An exception of the first
  \<^verbatim>\<open>await\<close> leaves the builder as it was; one of the second leaves \<^verbatim>\<open>chats\<close> assigned.
\<close>

definition resolve ::
  "utils \<Rightarrow> client \<Rightarrow> event_builder \<Rightarrow> call list \<Rightarrow> (error + unit) \<times> event_builder \<times> call list"
where
  "resolve u cl b log =
     (case into_id_set u cl (chats b) log of
        (Inl e, log1) \<Rightarrow> (Inl e, b, log1)
      | (Inr s, log1) \<Rightarrow>
          (let b1 = b\<lparr>chats := map_option IdSet s\<rparr> in
           case get_me cl log1 of
             (Inl e, log2) \<Rightarrow> (Inl e, b1, log2)
           | (Inr me, log2) \<Rightarrow>
               (case user_id me of
                  Inl e \<Rightarrow> (Inl e, b1, log2)
                | Inr i \<Rightarrow> (Inr (), b1\<lparr>self_id := Some i\<rparr>, log2))))"

subsection \<open>\<^verbatim>\<open>EventCommon\<close> (lines 84 to 212)\<close>

text \<open>
  The attributes of an event that the methods below read or write. \<^verbatim>\<open>_client\<close> is the
  client passed to the coroutines (the event after \<^verbatim>\<open>_set_client\<close>).
\<close>

record event =
  ev_entities :: "int \<rightharpoonup> entity"
  ev_chat_peer :: "peer option"
  ev_message_id :: "int option"
  ev_input_chat :: "input_peer option"
  ev_chat :: "entity option"
  is_private :: bool
  is_group :: bool
  is_channel :: bool

definition isinstance_PeerUser :: "peer option \<Rightarrow> bool" where
  "isinstance_PeerUser x = (case x of Some (PeerUser i) \<Rightarrow> True | _ \<Rightarrow> False)"

definition isinstance_PeerChat :: "peer option \<Rightarrow> bool" where
  "isinstance_PeerChat x = (case x of Some (PeerChat i) \<Rightarrow> True | _ \<Rightarrow> False)"

definition isinstance_PeerChannel :: "peer option \<Rightarrow> bool" where
  "isinstance_PeerChannel x = (case x of Some (PeerChannel i) \<Rightarrow> True | _ \<Rightarrow> False)"

definition init_event :: "peer option \<Rightarrow> int option \<Rightarrow> bool \<Rightarrow> event" where
  "init_event chat_peer msg_id broadcast =
     \<lparr>ev_entities = Map.empty,
      ev_chat_peer = chat_peer,
      ev_message_id = msg_id,
      ev_input_chat = None,
      ev_chat = None,
      is_private = isinstance_PeerUser chat_peer,
      is_group = ((isinstance_PeerChat chat_peer \<or> isinstance_PeerChannel chat_peer)
                  \<and> \<not> broadcast),
      is_channel = isinstance_PeerChannel chat_peer\<rparr>"

text \<open>
  \<^verbatim>\<open>_filter_event\<close>. \<^verbatim>\<open>x in self.chats\<close> is membership in the resolved set; on a list
  that was never resolved it compares \<^verbatim>\<open>x\<close> with the elements, of which only an equal
  \<^verbatim>\<open>int\<close> is equal to it; on a single reference (an \<^verbatim>\<open>int\<close>, a TL object, a \<^verbatim>\<open>str\<close>)
  it raises \<^verbatim>\<open>TypeError\<close>.
\<close>

definition contains :: "chats_value \<Rightarrow> int \<Rightarrow> error + bool" where
  "contains cs x =
     (case cs of
        IdSet s \<Rightarrow> Inr (x \<in> s)
      | Many l \<Rightarrow> Inr (IntRef x \<in> set l)
      | One c \<Rightarrow> Inl TypeError)"

definition filter_event :: "utils \<Rightarrow> event_builder \<Rightarrow> event \<Rightarrow> error + event option" where
  "filter_event u b ev =
     (case chats b of
        None \<Rightarrow> Inr (Some ev)
      | Some cs \<Rightarrow>
          (case get_peer_id u (ev_chat_peer ev) of
             Inl e \<Rightarrow> Inl e
           | Inr x \<Rightarrow>
               (case contains cs x of
                  Inl e \<Rightarrow> Inl e
                | Inr inside \<Rightarrow>
                    if inside = blacklist_chats b then Inr None else Inr (Some ev))))"

text \<open>
  The loop \<^verbatim>\<open>async for d in self._client.iter_dialogs()\<close> of \<^verbatim>\<open>input_chat\<close>: every
  dialog is taken from the generator, and each one whose \<^verbatim>\<open>id\<close> is the target assigns
  \<^verbatim>\<open>_chat\<close> and \<^verbatim>\<open>_input_chat\<close>; the \<^verbatim>\<open>break\<close> is commented out.
\<close>

fun scan_dialogs :: "int \<Rightarrow> dialog list \<Rightarrow> event \<Rightarrow> call list \<Rightarrow> event \<times> call list" where
  "scan_dialogs target [] ev log = (ev, log)"
| "scan_dialogs target (d # ds) ev log =
     scan_dialogs target ds
       (if d_id d = target
        then ev\<lparr>ev_chat := Some (d_entity d), ev_input_chat := Some (d_input_entity d)\<rparr>
        else ev)
       (log @ [NextDialog d])"

text \<open>
  The property \<^verbatim>\<open>input_chat\<close>. Only \<^verbatim>\<open>ValueError\<close> is caught; in the handler,
  \<^verbatim>\<open>msg._chat\<close> on a \<^verbatim>\<open>msg\<close> that is \<^verbatim>\<open>None\<close> raises \<^verbatim>\<open>AttributeError\<close>.
\<close>

definition input_chat ::
  "utils \<Rightarrow> client \<Rightarrow> event \<Rightarrow> call list \<Rightarrow> (error + input_peer option) \<times> event \<times> call list"
where
  "input_chat u cl ev log =
     (case (ev_input_chat ev, ev_chat_peer ev) of
        (None, Some p) \<Rightarrow>
          (case get_input_entity cl (PeerRef p) log of
             (Inr x, log1) \<Rightarrow>
               (Inr (Some x), ev\<lparr>ev_input_chat := Some x\<rparr>, log1)
           | (Inl e, log1) \<Rightarrow>
               if e \<noteq> ValueError then (Inl e, ev, log1)
               else
                 (let ch = isinstance_PeerChannel (Some p) in
                  if \<not> ch \<and> ev_message_id ev \<noteq> None then
                    (case ev_message_id ev of
                       None \<Rightarrow> (Inr (ev_input_chat ev), ev, log1)
                     | Some i \<Rightarrow>
                         (case get_messages cl i log1 of
                            (Inl e2, log2) \<Rightarrow> (Inl e2, ev, log2)
                          | (Inr None, log2) \<Rightarrow> (Inl AttributeError, ev, log2)
                          | (Inr (Some msg), log2) \<Rightarrow>
                              (Inr (msg_input_chat msg),
                               ev\<lparr>ev_chat := msg_chat msg, ev_input_chat := msg_input_chat msg\<rparr>,
                               log2)))
                  else
                    (let target = peer_id u p in
                     case iter_dialogs cl log1 of
                       ((ds, err), log2) \<Rightarrow>
                         (case scan_dialogs target ds ev log2 of
                            (ev2, log3) \<Rightarrow>
                              (case err of
                                 Some e3 \<Rightarrow> (Inl e3, ev2, log3)
                               | None \<Rightarrow> (Inr (ev_input_chat ev2), ev2, log3))))))
      | _ \<Rightarrow> (Inr (ev_input_chat ev), ev, log))"

text \<open>
  The property \<^verbatim>\<open>chat\<close>. Its guard is \<^verbatim>\<open>if not self.input_chat\<close>, without \<^verbatim>\<open>await\<close>:
  \<^verbatim>\<open>input_chat\<close> is an \<^verbatim>\<open>async def\<close> behind \<^verbatim>\<open>@property\<close>, so the expression creates a
  coroutine object and does not run its body. A coroutine object has neither
  \<^verbatim>\<open>__bool__\<close> nor \<^verbatim>\<open>__len__\<close>, so its truth value is \<^verbatim>\<open>True\<close>.
\<close>

definition coroutine_truth :: bool where
  "coroutine_truth = True"

definition chat ::
  "utils \<Rightarrow> client \<Rightarrow> event \<Rightarrow> call list \<Rightarrow> (error + entity option) \<times> event \<times> call list"
where
  "chat u cl ev log =
     (if \<not> coroutine_truth then (Inr None, ev, log)
      else
        (case (if ev_chat ev = None
               then (case get_peer_id u (ev_chat_peer ev) of
                       Inl e \<Rightarrow> Inl e
                     | Inr k \<Rightarrow> Inr (ev\<lparr>ev_chat := ev_entities ev k\<rparr>))
               else Inr ev) of
           Inl e \<Rightarrow> (Inl e, ev, log)
         | Inr ev1 \<Rightarrow>
             if ev_chat ev1 = None then
               (case get_entity cl (ev_input_chat ev1) log of
                  (Inl e, log1) \<Rightarrow> (Inl e, ev1, log1)
                | (Inr x, log1) \<Rightarrow> (Inr (Some x), ev1\<lparr>ev_chat := Some x\<rparr>, log1))
             else (Inr (ev_chat ev1), ev1, log)))"

text \<open>The property \<^verbatim>\<open>chat_id\<close>: \<^verbatim>\<open>None\<close> when there is no chat peer.\<close>

definition chat_id :: "utils \<Rightarrow> event \<Rightarrow> int option" where
  "chat_id u ev = (case ev_chat_peer ev of None \<Rightarrow> None | Some p \<Rightarrow> Some (peer_id u p))"

subsection \<open>\<^verbatim>\<open>name_inner_event\<close> (lines 215 to 221)\<close>

text \<open>
  A class that is decorated: its \<^verbatim>\<open>__name__\<close>, how \<^verbatim>\<open>format\<close> prints it, and its
  attribute \<^verbatim>\<open>Event\<close> if it has one, a class with the attribute \<^verbatim>\<open>_event_name\<close>.
  \<^verbatim>\<open>warnings.warn\<close> appends its message to the list of warnings issued.
\<close>

record event_class =
  event_name :: string

record family_class =
  cls_name :: string
  cls_format :: string
  cls_Event :: "event_class option"

definition name_inner_event ::
  "family_class \<Rightarrow> string list \<Rightarrow> family_class \<times> string list" where
  "name_inner_event cls warned =
     (case cls_Event cls of
        Some inner \<Rightarrow>
          (cls\<lparr>cls_Event := Some (inner\<lparr>event_name := cls_name cls @ ''.Event''\<rparr>)\<rparr>, warned)
      | None \<Rightarrow>
          (cls, warned @ [''Class '' @ cls_format cls @ '' does not have a inner Event'']))"

subsection \<open>Instances for concrete evaluations\<close>

text \<open>
  An instance of the parameter \<open>utils\<close>, used only to evaluate the model on concrete
  inputs: a user keeps its ID, a basic group has it negated, a channel has it marked
  beyond \<open>- 10\<^sup>1\<^sup>2\<close>; \<^verbatim>\<open>None\<close> and the input peers without an ID raise.
\<close>

definition example_utils :: utils where
  "example_utils =
     \<lparr>peer_id = (\<lambda>p. case p of PeerUser i \<Rightarrow> i | PeerChat i \<Rightarrow> - i
                          | PeerChannel i \<Rightarrow> - (1000000000000 + i)),
      input_peer_id = (\<lambda>x. case x of InputPeerUser i h \<Rightarrow> Inr i | InputPeerChat i \<Rightarrow> Inr (- i)
                          | InputPeerChannel i h \<Rightarrow> Inr (- (1000000000000 + i))
                          | _ \<Rightarrow> Inl TypeError),
      none_peer_id = Inl TypeError\<rparr>"

text \<open>
  A client whose answers do not depend on the calls made before: it knows some
  references, itself, some messages, a list of dialogs and some full entities.
\<close>

definition static_client ::
  "(chat_ref \<rightharpoonup> input_peer) \<Rightarrow> input_peer \<Rightarrow> (int \<rightharpoonup> message) \<Rightarrow> dialog list
   \<Rightarrow> (input_peer \<rightharpoonup> entity) \<Rightarrow> client" where
  "static_client known me msgs ds full =
     \<lparr>answer_get_input_entity =
        (\<lambda>log r. case known r of None \<Rightarrow> Inl ValueError | Some x \<Rightarrow> Inr x),
      answer_get_me = (\<lambda>log. Inr me),
      answer_get_messages = (\<lambda>log i. Inr (msgs i)),
      answer_iter_dialogs = (\<lambda>log. (ds, None)),
      answer_get_entity =
        (\<lambda>log x. case x of
                    None \<Rightarrow> Inl TypeError
                  | Some y \<Rightarrow> (case full y of None \<Rightarrow> Inl ValueError | Some e \<Rightarrow> Inr e))\<rparr>"

text \<open>
  A client that knows nobody and has no message: every \<^verbatim>\<open>get_input_entity\<close> raises
  \<^verbatim>\<open>ValueError\<close>; its dialogs are the given list.
\<close>

definition nobody_client :: "dialog list \<Rightarrow> client" where
  "nobody_client ds = static_client Map.empty (InputPeerUser 1 0) Map.empty ds Map.empty"

text \<open>A client that knows the user 7, as an input peer and as a full entity.\<close>

definition friend_client :: client where
  "friend_client =
     static_client [PeerRef (PeerUser 7) \<mapsto> InputPeerUser 7 99] (InputPeerUser 1 0) Map.empty []
       [InputPeerUser 7 99 \<mapsto> User 7]"

section \<open>Properties\<close>

subsection \<open>The chat filter\<close>

text \<open>
  Claim C1. For a builder whose chat filter has been resolved (its \<^verbatim>\<open>chats\<close> is
  \<^verbatim>\<open>None\<close> or the set \<open>s\<close> of IDs) and an event that carries a chat peer \<open>p\<close>,
  \<^verbatim>\<open>_filter_event\<close> returns the event itself if and only if \<^verbatim>\<open>chats\<close> is \<^verbatim>\<open>None\<close>, or
  membership of the ID of \<open>p\<close> in \<open>s\<close> differs from the blacklist flag (a whitelist
  requires membership, a blacklist requires non-membership); otherwise it returns
  \<^verbatim>\<open>None\<close>.
\<close>

theorem filter_event_resolved:
  assumes "chats b = map_option IdSet S"
    and "ev_chat_peer ev = Some p"
  shows "(filter_event u b ev = Inr (Some ev)
            \<longleftrightarrow> (S = None \<or> (\<exists>s. S = Some s \<and> ((peer_id u p \<in> s) \<noteq> blacklist_chats b))))
         \<and> (filter_event u b ev \<noteq> Inr (Some ev) \<longrightarrow> filter_event u b ev = Inr None)"
  using assms by (cases S) (auto simp: filter_event_def get_peer_id_def contains_def)

theorem filter_event_resolved_witness:
  "filter_event example_utils (init_builder (Some (IdSet {5, -7})) False)
       (init_event (Some (PeerUser 5)) None False)
     = Inr (Some (init_event (Some (PeerUser 5)) None False))
   \<and> filter_event example_utils (init_builder (Some (IdSet {5, -7})) True)
       (init_event (Some (PeerUser 5)) None False)
     = Inr None"
proof -
  have c: "chats (init_builder (Some (IdSet {5, -7})) bl) = map_option IdSet (Some {5, -7})" for bl
    by (simp add: init_builder_def)
  have p: "ev_chat_peer (init_event (Some (PeerUser 5)) None False) = Some (PeerUser 5)"
    by (simp add: init_event_def)
  have i: "peer_id example_utils (PeerUser 5) = 5"
    by (simp add: example_utils_def)
  have bl: "blacklist_chats (init_builder cs bl) = bl" for cs bl
    by (simp add: init_builder_def)
  show ?thesis
    using filter_event_resolved [where u = example_utils, OF c [of False] p]
      filter_event_resolved [where u = example_utils, OF c [of True] p]
    by (simp add: i bl)
qed

subsection \<open>Construction of an event\<close>

text \<open>
  Claim C10. The classification flags are not mutually exclusive: an event constructed
  with a channel peer and \<^verbatim>\<open>broadcast=False\<close> has both \<^verbatim>\<open>is_group\<close> and \<^verbatim>\<open>is_channel\<close>;
  \<^verbatim>\<open>is_private\<close> holds exactly for a user peer and then \<^verbatim>\<open>is_group\<close> and \<^verbatim>\<open>is_channel\<close>
  are false; without a chat peer all three flags are false.
\<close>

theorem init_event_flags:
  "is_group (init_event (Some (PeerChannel i)) m False)
   \<and> is_channel (init_event (Some (PeerChannel i)) m False)
   \<and> (is_private (init_event x m bc) \<longleftrightarrow> (\<exists>j. x = Some (PeerUser j)))
   \<and> (is_private (init_event x m bc) \<longrightarrow>
         \<not> is_group (init_event x m bc) \<and> \<not> is_channel (init_event x m bc))
   \<and> \<not> is_private (init_event None m bc) \<and> \<not> is_group (init_event None m bc)
   \<and> \<not> is_channel (init_event None m bc)"
  by (auto simp: init_event_def isinstance_PeerUser_def isinstance_PeerChat_def
        isinstance_PeerChannel_def split: option.splits peer.splits)

theorem init_event_flags_witness:
  "is_private (init_event (Some (PeerUser 3)) (Some 10) False)
   \<and> \<not> is_group (init_event (Some (PeerUser 3)) (Some 10) False)
   \<and> \<not> is_channel (init_event (Some (PeerUser 3)) (Some 10) False)"
proof -
  have h: "is_private (init_event (Some (PeerUser 3)) (Some 10) False)"
    by (simp add: init_event_def isinstance_PeerUser_def)
  show ?thesis
    using h init_event_flags [of 0 "Some 10" "Some (PeerUser 3)" False] by blast
qed

subsection \<open>Registration of an event family\<close>

text \<open>
  Claim C9. When the decorated class has an inner \<^verbatim>\<open>Event\<close>, \<^verbatim>\<open>name_inner_event\<close> sets
  the \<^verbatim>\<open>_event_name\<close> of that inner class to the name of the class followed by
  \<^verbatim>\<open>.Event\<close>, changes nothing else and warns of nothing; when it has none, one warning
  is issued and the class is returned as it was. Either way the class is returned.
\<close>

theorem name_inner_event_stamps_or_warns:
  "(cls_Event cls = Some inner \<longrightarrow>
      cls_Event (fst (name_inner_event cls warned))
        = Some (inner\<lparr>event_name := cls_name cls @ ''.Event''\<rparr>)
      \<and> cls_name (fst (name_inner_event cls warned)) = cls_name cls
      \<and> cls_format (fst (name_inner_event cls warned)) = cls_format cls
      \<and> snd (name_inner_event cls warned) = warned)
   \<and> (cls_Event cls = None \<longrightarrow>
      fst (name_inner_event cls warned) = cls
      \<and> snd (name_inner_event cls warned)
          = warned @ [''Class '' @ cls_format cls @ '' does not have a inner Event''])"
  by (simp add: name_inner_event_def)

theorem name_inner_event_stamps_or_warns_witness:
  "event_name (the (cls_Event (fst (name_inner_event
      \<lparr>cls_name = ''NewMessage'', cls_format = ''<class NewMessage>'',
       cls_Event = Some \<lparr>event_name = ''Event''\<rparr>\<rparr> []))))
     = ''NewMessage.Event''
   \<and> length (snd (name_inner_event
      \<lparr>cls_name = ''Raw'', cls_format = ''<class Raw>'', cls_Event = None\<rparr> [])) = 1"
  using name_inner_event_stamps_or_warns
          [of "\<lparr>cls_name = ''NewMessage'', cls_format = ''<class NewMessage>'',
                cls_Event = Some \<lparr>event_name = ''Event''\<rparr>\<rparr>" "\<lparr>event_name = ''Event''\<rparr>" "[]"]
        name_inner_event_stamps_or_warns
          [of "\<lparr>cls_name = ''Raw'', cls_format = ''<class Raw>'', cls_Event = None\<rparr>" undefined "[]"]
  by simp

subsection \<open>Resolution of the chat references\<close>

text \<open>
  The loop of \<^verbatim>\<open>_into_id_set\<close> over integers only makes no client call and never
  fails; over two lists in a row it is the loop over the first followed, unless that
  one raised, by the loop over the second; what is in the accumulator stays in it.
\<close>

lemma into_id_loop_ints:
  "into_id_loop u cl (map IntRef ns) acc log =
     (Inr (acc \<union> (\<Union>n\<in>set ns. if n < 0 then {n}
                     else {peer_id u (PeerUser n), peer_id u (PeerChat n), peer_id u (PeerChannel n)})),
      log)"
  by (induction ns arbitrary: acc) auto

lemma into_id_loop_append:
  "into_id_loop u cl (xs @ ys) acc log =
     (case into_id_loop u cl xs acc log of
        (Inl e, l) \<Rightarrow> (Inl e, l)
      | (Inr acc', l) \<Rightarrow> into_id_loop u cl ys acc' l)"
  by (induction u cl xs acc log rule: into_id_loop.induct)
     (auto split: prod.splits sum.splits)

lemma into_id_loop_mono:
  "into_id_loop u cl cs acc log = (Inr S, log') \<Longrightarrow> acc \<subseteq> S"
  by (induction u cl cs acc log rule: into_id_loop.induct)
     (auto split: prod.splits sum.splits if_splits)

lemma into_id_loop_int_member:
  "into_id_loop u cl cs acc log = (Inr S, log') \<Longrightarrow> IntRef n \<in> set cs \<Longrightarrow>
     (if n < 0 then {n}
      else {peer_id u (PeerUser n), peer_id u (PeerChat n), peer_id u (PeerChannel n)}) \<subseteq> S"
proof (induction u cl cs acc log rule: into_id_loop.induct)
  case (1 u cl result log)
  then show ?case by simp
next
  case (2 u cl m chats result log)
  show ?case
  proof (cases "m = n")
    case True
    with "2.prems"(1) into_id_loop_mono show ?thesis
      by (fastforce split: if_splits)
  next
    case False
    with 2 show ?thesis by (auto split: if_splits)
  qed
next
  case (3 u cl p chats result log)
  then show ?case by auto
next
  case (4 u cl r chats result log)
  then show ?case by (auto split: prod.splits sum.splits if_splits)
qed

text \<open>
  Claim C5. In \<^verbatim>\<open>_into_id_set\<close> a negative integer contributes itself and nothing
  else, and a non-negative integer contributes the IDs of the user, of the basic group
  and of the channel with that number: the result for a list of integers is exactly the
  union of these contributions, and in the result for any list each integer of the list
  has its contribution. So \<^verbatim>\<open>chats=[-100]\<close> resolves to \<open>{-100}\<close>, also as the \<^verbatim>\<open>chats\<close>
  of a builder after \<^verbatim>\<open>resolve\<close>, and \<^verbatim>\<open>chats=[42]\<close> to the set of the three encodings
  of 42, which has three elements when \<^verbatim>\<open>get_peer_id\<close> gives the three peers
  different IDs.
\<close>

theorem into_id_set_integers:
  "into_id_set u cl (Some (Many (map IntRef ns))) log
     = (Inr (Some (\<Union>n\<in>set ns. if n < 0 then {n}
                    else {peer_id u (PeerUser n), peer_id u (PeerChat n),
                          peer_id u (PeerChannel n)})), log)
   \<and> (into_id_set u cl (Some (Many cs)) log = (Inr (Some S), log') \<and> IntRef n \<in> set cs \<longrightarrow>
        (if n < 0 then {n}
         else {peer_id u (PeerUser n), peer_id u (PeerChat n), peer_id u (PeerChannel n)})
        \<subseteq> S)
   \<and> into_id_set u cl (Some (Many [IntRef (- 100)])) log = (Inr (Some {- 100}), log)
   \<and> chats (fst (snd (resolve u cl (init_builder (Some (Many [IntRef (- 100)])) bl) log)))
        = Some (IdSet {- 100})
   \<and> into_id_set u cl (Some (Many [IntRef 42])) log
        = (Inr (Some {peer_id u (PeerUser 42), peer_id u (PeerChat 42),
                      peer_id u (PeerChannel 42)}), log)
   \<and> (distinct [peer_id u (PeerUser 42), peer_id u (PeerChat 42), peer_id u (PeerChannel 42)]
        \<longrightarrow> (\<exists>T. into_id_set u cl (Some (Many [IntRef 42])) log = (Inr (Some T), log)
                  \<and> card T = 3))"
proof -
  have ints: "into_id_set u cl (Some (Many (map IntRef ms))) log
     = (Inr (Some (\<Union>n\<in>set ms. if n < 0 then {n}
                    else {peer_id u (PeerUser n), peer_id u (PeerChat n),
                          peer_id u (PeerChannel n)})), log)" for ms
    by (simp add: into_id_set_def as_list_def into_id_loop_ints)
  have member: "into_id_set u cl (Some (Many cs)) log = (Inr (Some S), log') \<and> IntRef n \<in> set cs
      \<longrightarrow> (if n < 0 then {n}
         else {peer_id u (PeerUser n), peer_id u (PeerChat n), peer_id u (PeerChannel n)})
        \<subseteq> S"
  proof
    assume a: "into_id_set u cl (Some (Many cs)) log = (Inr (Some S), log') \<and> IntRef n \<in> set cs"
    then have "into_id_loop u cl cs {} log = (Inr S, log')"
      by (auto simp: into_id_set_def as_list_def split: prod.splits sum.splits)
    with a show "(if n < 0 then {n}
         else {peer_id u (PeerUser n), peer_id u (PeerChat n), peer_id u (PeerChannel n)})
        \<subseteq> S"
      using into_id_loop_int_member by blast
  qed
  have neg: "into_id_set u cl (Some (Many [IntRef (- 100)])) log = (Inr (Some {- 100}), log)"
    using ints [of "[- 100]"] by simp
  have res: "chats (fst (snd (resolve u cl (init_builder (Some (Many [IntRef (- 100)])) bl) log)))
        = Some (IdSet {- 100})"
    by (simp add: resolve_def init_builder_def neg Let_def split: prod.splits sum.splits)
  have pos: "into_id_set u cl (Some (Many [IntRef 42])) log
        = (Inr (Some {peer_id u (PeerUser 42), peer_id u (PeerChat 42),
                      peer_id u (PeerChannel 42)}), log)"
    using ints [of "[42]"] by simp
  have three: "distinct [peer_id u (PeerUser 42), peer_id u (PeerChat 42), peer_id u (PeerChannel 42)]
        \<longrightarrow> (\<exists>T. into_id_set u cl (Some (Many [IntRef 42])) log = (Inr (Some T), log)
                  \<and> card T = 3)"
    by (simp add: pos)
  from ints [of ns] member neg res pos three show ?thesis by blast
qed

theorem into_id_set_integers_witness:
  "into_id_set example_utils (static_client Map.empty (InputPeerUser 1 0) Map.empty [] Map.empty)
     (Some (Many [IntRef 42])) []
     = (Inr (Some {42, - 42, - 1000000000042}), [])
   \<and> card {42, - 42, - 1000000000042 :: int} = 3
   \<and> into_id_set example_utils
        (static_client Map.empty (InputPeerUser 1 0) Map.empty [] Map.empty)
        (Some (Many [IntRef (- 5), PeerRef (PeerUser 7)])) []
      = (Inr (Some {- 5, 7}), [])"
proof -
  let ?cl = "static_client Map.empty (InputPeerUser 1 0) Map.empty [] Map.empty"
  have ids: "peer_id example_utils (PeerUser 42) = 42" "peer_id example_utils (PeerChat 42) = - 42"
    "peer_id example_utils (PeerChannel 42) = - 1000000000042"
    by (simp_all add: example_utils_def)
  have d: "distinct [peer_id example_utils (PeerUser 42), peer_id example_utils (PeerChat 42),
                     peer_id example_utils (PeerChannel 42)]"
    by (simp add: ids)
  have run: "into_id_set example_utils ?cl (Some (Many [IntRef (- 5), PeerRef (PeerUser 7)])) []
               = (Inr (Some {- 5, 7}), [])"
    by (simp add: into_id_set_def as_list_def example_utils_def insert_commute)
  have m: "IntRef (- 5) \<in> set [IntRef (- 5), PeerRef (PeerUser 7)]"
    by simp
  show ?thesis
    using d run m
      into_id_set_integers [where u = example_utils and cl = ?cl and ns = "[]" and log = "[]"
        and cs = "[IntRef (- 5), PeerRef (PeerUser 7)]" and S = "{- 5, 7}" and log' = "[]"
        and n = "- 5" and bl = False]
    by (simp add: ids)
qed

text \<open>
  Claim C6. When a lookup through the client fails while the chat references of a
  builder are resolved (\<^verbatim>\<open>get_input_entity\<close> on a reference raises \<open>e\<close>, or it answers
  \<^verbatim>\<open>InputPeerSelf\<close> and \<^verbatim>\<open>get_me\<close> raises \<open>e\<close>, the references before it having been
  resolved), \<^verbatim>\<open>resolve\<close> raises \<open>e\<close> and the builder is as it was: neither \<^verbatim>\<open>chats\<close> nor
  \<^verbatim>\<open>_self_id\<close> is assigned. The same holds for any exception that leaves
  \<^verbatim>\<open>_into_id_set\<close>.
\<close>

theorem resolve_lookup_failure:
  "(chats b = Some v \<and> as_list v = pre @ OtherRef r # post
      \<and> into_id_loop u cl pre {} log = (Inr acc, log1)
      \<and> (answer_get_input_entity cl log1 (OtherRef r) = Inl e
          \<or> answer_get_input_entity cl log1 (OtherRef r) = Inr InputPeerSelf
            \<and> answer_get_me cl (log1 @ [GetInputEntity (OtherRef r)]) = Inl e)
      \<longrightarrow> (\<exists>log'. resolve u cl b log = (Inl e, b, log')))
   \<and> (into_id_set u cl (chats b) log = (Inl e', log2) \<longrightarrow>
        resolve u cl b log = (Inl e', b, log2))"
proof -
  have generic: "into_id_set u cl (chats b) log = (Inl e', log2) \<longrightarrow>
        resolve u cl b log = (Inl e', b, log2)"
    by (simp add: resolve_def)
  have lookup: "\<exists>log'. resolve u cl b log = (Inl e, b, log')"
    if c: "chats b = Some v" and l: "as_list v = pre @ OtherRef r # post"
      and p: "into_id_loop u cl pre {} log = (Inr acc, log1)"
      and f: "answer_get_input_entity cl log1 (OtherRef r) = Inl e
          \<or> answer_get_input_entity cl log1 (OtherRef r) = Inr InputPeerSelf
            \<and> answer_get_me cl (log1 @ [GetInputEntity (OtherRef r)]) = Inl e"
  proof -
    from f have "\<exists>log'. into_id_loop u cl (OtherRef r # post) acc log1 = (Inl e, log')"
      by (auto simp: get_input_entity_def get_me_def)
    with p have "\<exists>log'. into_id_loop u cl (pre @ OtherRef r # post) {} log = (Inl e, log')"
      by (simp add: into_id_loop_append)
    with c l have "\<exists>log'. into_id_set u cl (chats b) log = (Inl e, log')"
      by (auto simp: into_id_set_def)
    then show ?thesis
      by (auto simp: resolve_def)
  qed
  from generic lookup show ?thesis by blast
qed

theorem resolve_lookup_failure_witness:
  "resolve example_utils
     (static_client [OtherRef ''durov'' \<mapsto> InputPeerUser 9 0] (InputPeerUser 1 0) Map.empty []
        Map.empty)
     (init_builder (Some (Many [IntRef (- 100), OtherRef ''durov'', OtherRef ''nobody''])) False) []
   = (Inl ValueError,
      init_builder (Some (Many [IntRef (- 100), OtherRef ''durov'', OtherRef ''nobody''])) False,
      [GetInputEntity (OtherRef ''durov''), GetInputEntity (OtherRef ''nobody'')])"
proof -
  let ?cl = "static_client [OtherRef ''durov'' \<mapsto> InputPeerUser 9 0] (InputPeerUser 1 0)
               Map.empty [] Map.empty"
  let ?v = "Many [IntRef (- 100), OtherRef ''durov'', OtherRef ''nobody'']"
  let ?b = "init_builder (Some ?v) False"
  let ?log1 = "[GetInputEntity (OtherRef ''durov'')]"
  have c: "chats ?b = Some ?v"
    by (simp add: init_builder_def)
  have l: "as_list ?v = [IntRef (- 100), OtherRef ''durov''] @ OtherRef ''nobody'' # []"
    by (simp add: as_list_def)
  have p: "into_id_loop example_utils ?cl [IntRef (- 100), OtherRef ''durov''] {} []
             = (Inr {9, - 100}, ?log1)"
    by (simp add: get_input_entity_def static_client_def example_utils_def)
  have f: "answer_get_input_entity ?cl ?log1 (OtherRef ''nobody'') = Inl ValueError"
    by (simp add: static_client_def)
  have run: "into_id_set example_utils ?cl (chats ?b) []
    = (Inl ValueError, ?log1 @ [GetInputEntity (OtherRef ''nobody'')])"
    by (simp add: into_id_set_def as_list_def init_builder_def get_input_entity_def
        static_client_def example_utils_def)
  show ?thesis
    using c l p f run
      resolve_lookup_failure [where b = ?b and v = ?v and pre = "[IntRef (- 100), OtherRef ''durov'']"
        and r = "''nobody''" and post = "[]" and u = example_utils and cl = ?cl and log = "[]"
        and acc = "{9, - 100}" and ?log1.0 = ?log1 and e = ValueError and e' = ValueError
        and ?log2.0 = "?log1 @ [GetInputEntity (OtherRef ''nobody'')]"]
    by simp
qed

subsection \<open>The lazy property \<^verbatim>\<open>input_chat\<close>\<close>

text \<open>
  The loop over the dialogs appends one \<open>NextDialog\<close> to the log for each dialog of the
  generator, and leaves the event with the pair of the last dialog that has the target
  ID, or as it was when there is none.
\<close>

lemma scan_dialogs_log:
  "snd (scan_dialogs t ds ev log) = log @ map NextDialog ds"
  by (induction ds arbitrary: ev log) auto

lemma find_snoc:
  "List.find P (xs @ [x]) =
     (case List.find P xs of None \<Rightarrow> (if P x then Some x else None) | Some y \<Rightarrow> Some y)"
  by (induction xs) auto

lemma scan_dialogs_event:
  "fst (scan_dialogs t ds ev log) =
     (case List.find (\<lambda>d. d_id d = t) (rev ds) of
        None \<Rightarrow> ev
      | Some d \<Rightarrow> ev\<lparr>ev_chat := Some (d_entity d), ev_input_chat := Some (d_input_entity d)\<rparr>)"
proof (induction ds arbitrary: ev log)
  case Nil
  then show ?case by simp
next
  case (Cons d ds)
  show ?case
    by (simp add: Cons.IH find_snoc split: option.splits)
qed

lemma scan_dialogs_chat_peer:
  "ev_chat_peer (fst (scan_dialogs t ds ev log)) = ev_chat_peer ev"
  by (simp add: scan_dialogs_event split: option.splits)

lemma find_rev_unique:
  "distinct (map f xs) \<Longrightarrow> List.find (\<lambda>x. f x = t) (rev xs) = List.find (\<lambda>x. f x = t) xs"
proof (induction xs)
  case Nil
  then show ?case by simp
next
  case (Cons x xs)
  then have ih: "List.find (\<lambda>x. f x = t) (rev xs) = List.find (\<lambda>x. f x = t) xs"
    by simp
  show ?case
  proof (cases "f x = t")
    case True
    from Cons.prems have "f x \<notin> f ` set xs"
      by simp
    with True have "\<not> (\<exists>y. y \<in> set xs \<and> f y = t)"
      by (metis imageI)
    then have "List.find (\<lambda>x. f x = t) xs = None"
      by (simp add: find_None_iff)
    with True ih show ?thesis
      by (simp add: find_snoc)
  next
    case False
    with ih show ?thesis
      by (simp add: find_snoc split: option.splits)
  qed
qed

lemma scan_dialogs_eq:
  "scan_dialogs t ds ev log =
     (case List.find (\<lambda>d. d_id d = t) (rev ds) of
        None \<Rightarrow> ev
      | Some d \<Rightarrow> ev\<lparr>ev_chat := Some (d_entity d), ev_input_chat := Some (d_input_entity d)\<rparr>,
      log @ map NextDialog ds)"
  by (simp add: prod_eq_iff scan_dialogs_event scan_dialogs_log)

text \<open>
  What \<^verbatim>\<open>input_chat\<close> returns is what it leaves in \<^verbatim>\<open>_input_chat\<close>; it never assigns
  \<^verbatim>\<open>_chat_peer\<close>; and with a chat peer and nothing in \<^verbatim>\<open>_input_chat\<close> its first call is
  \<^verbatim>\<open>get_input_entity\<close> on the peer. Likewise \<^verbatim>\<open>chat\<close> returns what it leaves in \<^verbatim>\<open>_chat\<close>.
\<close>

lemma input_chat_field:
  "input_chat u cl ev log = (Inr r, ev1, log1) \<Longrightarrow> ev_input_chat ev1 = r"
  by (auto simp: input_chat_def Let_def split: option.splits prod.splits sum.splits if_splits)

lemma input_chat_chat_peer:
  "input_chat u cl ev log = (r, ev1, log1) \<Longrightarrow> ev_chat_peer ev1 = ev_chat_peer ev"
  by (auto simp: input_chat_def Let_def scan_dialogs_eq
      split: option.splits prod.splits sum.splits if_splits)

lemma input_chat_attempt:
  "ev_input_chat ev = None \<Longrightarrow> ev_chat_peer ev = Some p \<Longrightarrow>
     \<exists>r ev2 rest. input_chat u cl ev log = (r, ev2, log @ GetInputEntity (PeerRef p) # rest)"
  by (auto simp: input_chat_def Let_def scan_dialogs_eq get_input_entity_def get_messages_def
      iter_dialogs_def split: option.splits prod.splits sum.splits if_splits)

lemma chat_field:
  "chat u cl ev log = (Inr r, ev1, log1) \<Longrightarrow> ev_chat ev1 = r"
  by (auto simp: chat_def coroutine_truth_def split: option.splits prod.splits sum.splits if_splits)

text \<open>
  Claim C3, as amended. In the dialog scan of \<^verbatim>\<open>input_chat\<close> (nothing cached, a chat
  peer, \<^verbatim>\<open>get_input_entity\<close> raising \<^verbatim>\<open>ValueError\<close>, and a channel peer or no message
  ID), when the generator of \<^verbatim>\<open>iter_dialogs\<close> ends without raising, every dialog of the
  sequence is taken from it, and the event adopts the entity and input entity of the
  \<^emph>\<open>last\<close> dialog whose ID is the ID of the chat peer (each match assigns again); the
  result is \<^verbatim>\<open>None\<close> and the event unchanged when no dialog matches. When the IDs of the
  dialogs are pairwise different, the last match is the first one.
\<close>

theorem input_chat_dialog_scan:
  assumes "ev_input_chat ev = None"
    and "ev_chat_peer ev = Some p"
    and "answer_get_input_entity cl log (PeerRef p) = Inl ValueError"
    and "isinstance_PeerChannel (Some p) \<or> ev_message_id ev = None"
    and "answer_iter_dialogs cl (log @ [GetInputEntity (PeerRef p)]) = (ds, None)"
  shows "input_chat u cl ev log =
           (case List.find (\<lambda>d. d_id d = peer_id u p) (rev ds) of
              None \<Rightarrow>
                (Inr None, ev,
                 log @ [GetInputEntity (PeerRef p), IterDialogs] @ map NextDialog ds)
            | Some d \<Rightarrow>
                (Inr (Some (d_input_entity d)),
                 ev\<lparr>ev_chat := Some (d_entity d), ev_input_chat := Some (d_input_entity d)\<rparr>,
                 log @ [GetInputEntity (PeerRef p), IterDialogs] @ map NextDialog ds))
         \<and> (distinct (map d_id ds) \<longrightarrow>
              List.find (\<lambda>d. d_id d = peer_id u p) (rev ds)
                = List.find (\<lambda>d. d_id d = peer_id u p) ds)"
proof -
  from assms have "input_chat u cl ev log =
      (case scan_dialogs (peer_id u p) ds ev (log @ [GetInputEntity (PeerRef p), IterDialogs]) of
         (ev2, log3) \<Rightarrow> (Inr (ev_input_chat ev2), ev2, log3))"
    by (auto simp: input_chat_def Let_def get_input_entity_def iter_dialogs_def)
  with assms(1) have run: "input_chat u cl ev log =
           (case List.find (\<lambda>d. d_id d = peer_id u p) (rev ds) of
              None \<Rightarrow>
                (Inr None, ev,
                 log @ [GetInputEntity (PeerRef p), IterDialogs] @ map NextDialog ds)
            | Some d \<Rightarrow>
                (Inr (Some (d_input_entity d)),
                 ev\<lparr>ev_chat := Some (d_entity d), ev_input_chat := Some (d_input_entity d)\<rparr>,
                 log @ [GetInputEntity (PeerRef p), IterDialogs] @ map NextDialog ds))"
    by (simp add: scan_dialogs_eq split: option.splits)
  have "distinct (map d_id ds) \<longrightarrow>
              List.find (\<lambda>d. d_id d = peer_id u p) (rev ds)
                = List.find (\<lambda>d. d_id d = peer_id u p) ds"
    by (simp add: find_rev_unique)
  with run show ?thesis by blast
qed

theorem input_chat_dialog_scan_witness:
  "input_chat example_utils
     (nobody_client
        [\<lparr>d_id = - 1000000000005, d_entity = Channel 5, d_input_entity = InputPeerChannel 5 11\<rparr>,
         \<lparr>d_id = 8, d_entity = User 8, d_input_entity = InputPeerUser 8 1\<rparr>])
     (init_event (Some (PeerChannel 5)) (Some 33) False) []
   = (Inr (Some (InputPeerChannel 5 11)),
      (init_event (Some (PeerChannel 5)) (Some 33) False)
        \<lparr>ev_chat := Some (Channel 5), ev_input_chat := Some (InputPeerChannel 5 11)\<rparr>,
      [GetInputEntity (PeerRef (PeerChannel 5)), IterDialogs,
       NextDialog \<lparr>d_id = - 1000000000005, d_entity = Channel 5,
                   d_input_entity = InputPeerChannel 5 11\<rparr>,
       NextDialog \<lparr>d_id = 8, d_entity = User 8, d_input_entity = InputPeerUser 8 1\<rparr>])"
proof -
  let ?ds = "[\<lparr>d_id = - 1000000000005, d_entity = Channel 5,
               d_input_entity = InputPeerChannel 5 11\<rparr>,
             \<lparr>d_id = 8, d_entity = User 8, d_input_entity = InputPeerUser 8 1\<rparr>]"
  let ?ev = "init_event (Some (PeerChannel 5)) (Some 33) False"
  have h1: "ev_input_chat ?ev = None"
    by (simp add: init_event_def)
  have h2: "ev_chat_peer ?ev = Some (PeerChannel 5)"
    by (simp add: init_event_def)
  have h3: "answer_get_input_entity (nobody_client ?ds) [] (PeerRef (PeerChannel 5)) = Inl ValueError"
    by (simp add: nobody_client_def static_client_def)
  have h4: "isinstance_PeerChannel (Some (PeerChannel 5)) \<or> ev_message_id ?ev = None"
    by (simp add: isinstance_PeerChannel_def)
  have h5: "answer_iter_dialogs (nobody_client ?ds) ([] @ [GetInputEntity (PeerRef (PeerChannel 5))])
              = (?ds, None)"
    by (simp add: nobody_client_def static_client_def)
  have i: "peer_id example_utils (PeerChannel 5) = - 1000000000005"
    by (simp add: example_utils_def)
  show ?thesis
    using input_chat_dialog_scan [where u = example_utils, OF h1 h2 h3 h4 h5]
    by (simp add: i)
qed

text \<open>
  Claim C3 as stated fails: of two dialogs that both have the ID of the chat peer, the
  event ends with the entity and input entity of the second, not of the first.
\<close>

theorem input_chat_first_dialog_counterexample:
  "d_id \<lparr>d_id = - 1000000000005, d_entity = Channel 5, d_input_entity = InputPeerChannel 5 11\<rparr>
     = peer_id example_utils (PeerChannel 5)
   \<and> input_chat example_utils
     (nobody_client
        [\<lparr>d_id = - 1000000000005, d_entity = Channel 5, d_input_entity = InputPeerChannel 5 11\<rparr>,
         \<lparr>d_id = - 1000000000005, d_entity = Channel 6, d_input_entity = InputPeerChannel 5 22\<rparr>])
     (init_event (Some (PeerChannel 5)) None False) []
   = (Inr (Some (InputPeerChannel 5 22)),
      (init_event (Some (PeerChannel 5)) None False)
        \<lparr>ev_chat := Some (Channel 6), ev_input_chat := Some (InputPeerChannel 5 22)\<rparr>,
      [GetInputEntity (PeerRef (PeerChannel 5)), IterDialogs,
       NextDialog \<lparr>d_id = - 1000000000005, d_entity = Channel 5,
                   d_input_entity = InputPeerChannel 5 11\<rparr>,
       NextDialog \<lparr>d_id = - 1000000000005, d_entity = Channel 6,
                   d_input_entity = InputPeerChannel 5 22\<rparr>])"
  by (simp add: input_chat_def Let_def get_input_entity_def iter_dialogs_def nobody_client_def
      static_client_def example_utils_def init_event_def isinstance_PeerChannel_def)

text \<open>
  Claim C4. For an event with nothing cached whose chat peer is not a channel and whose
  message ID is set, when \<^verbatim>\<open>get_input_entity\<close> raises \<^verbatim>\<open>ValueError\<close> the calls made are
  \<^verbatim>\<open>get_input_entity\<close> and \<^verbatim>\<open>get_messages\<close> with that ID and no others, so the dialogs
  are not scanned; and when \<^verbatim>\<open>get_messages\<close> returns a message, the event adopts the
  \<^verbatim>\<open>_chat\<close> and \<^verbatim>\<open>_input_chat\<close> of the message and \<^verbatim>\<open>input_chat\<close> returns the latter.
\<close>

theorem input_chat_message_fallback:
  assumes "ev_input_chat ev = None"
    and "ev_chat_peer ev = Some p"
    and "\<not> isinstance_PeerChannel (Some p)"
    and "ev_message_id ev = Some i"
    and "answer_get_input_entity cl log (PeerRef p) = Inl ValueError"
  shows "snd (snd (input_chat u cl ev log)) = log @ [GetInputEntity (PeerRef p), GetMessages i]
         \<and> (answer_get_messages cl (log @ [GetInputEntity (PeerRef p)]) i = Inr (Some msg) \<longrightarrow>
              input_chat u cl ev log =
                (Inr (msg_input_chat msg),
                 ev\<lparr>ev_chat := msg_chat msg, ev_input_chat := msg_input_chat msg\<rparr>,
                 log @ [GetInputEntity (PeerRef p), GetMessages i]))"
  using assms
  by (auto simp: input_chat_def Let_def get_input_entity_def get_messages_def
      split: sum.splits option.splits)

theorem input_chat_message_fallback_witness:
  "input_chat example_utils
     (static_client Map.empty (InputPeerUser 1 0)
        [33 \<mapsto> \<lparr>msg_chat = Some (User 7), msg_input_chat = Some (InputPeerUser 7 99)\<rparr>]
        [\<lparr>d_id = 7, d_entity = User 7, d_input_entity = InputPeerUser 7 0\<rparr>] Map.empty)
     (init_event (Some (PeerUser 7)) (Some 33) False) []
   = (Inr (Some (InputPeerUser 7 99)),
      (init_event (Some (PeerUser 7)) (Some 33) False)
        \<lparr>ev_chat := Some (User 7), ev_input_chat := Some (InputPeerUser 7 99)\<rparr>,
      [GetInputEntity (PeerRef (PeerUser 7)), GetMessages 33])"
proof -
  let ?cl = "static_client Map.empty (InputPeerUser 1 0)
        [33 \<mapsto> \<lparr>msg_chat = Some (User 7), msg_input_chat = Some (InputPeerUser 7 99)\<rparr>]
        [\<lparr>d_id = 7, d_entity = User 7, d_input_entity = InputPeerUser 7 0\<rparr>] Map.empty"
  let ?ev = "init_event (Some (PeerUser 7)) (Some 33) False"
  have h1: "ev_input_chat ?ev = None"
    by (simp add: init_event_def)
  have h2: "ev_chat_peer ?ev = Some (PeerUser 7)"
    by (simp add: init_event_def)
  have h3: "\<not> isinstance_PeerChannel (Some (PeerUser 7))"
    by (simp add: isinstance_PeerChannel_def)
  have h4: "ev_message_id ?ev = Some 33"
    by (simp add: init_event_def)
  have h5: "answer_get_input_entity ?cl [] (PeerRef (PeerUser 7)) = Inl ValueError"
    by (simp add: static_client_def)
  have m: "answer_get_messages ?cl ([] @ [GetInputEntity (PeerRef (PeerUser 7))]) 33
             = Inr (Some \<lparr>msg_chat = Some (User 7), msg_input_chat = Some (InputPeerUser 7 99)\<rparr>)"
    by (simp add: static_client_def)
  show ?thesis
    using m input_chat_message_fallback [where u = example_utils
        and msg = "\<lparr>msg_chat = Some (User 7), msg_input_chat = Some (InputPeerUser 7 99)\<rparr>",
        OF h1 h2 h3 h4 h5]
    by simp
qed

subsection \<open>Caching\<close>

text \<open>
  Claim C7. After an access to \<^verbatim>\<open>input_chat\<close> that returned a value other than
  \<^verbatim>\<open>None\<close>, an access to \<^verbatim>\<open>input_chat\<close> on the event as that access left it returns the
  same value, leaves the event as it is and makes no client call, whatever the client
  and the calls made in between; and the same for \<^verbatim>\<open>chat\<close>.
\<close>

theorem lazy_properties_cached:
  "(input_chat u cl ev log = (Inr (Some x), ev1, log1) \<longrightarrow>
      input_chat u cl2 ev1 log2 = (Inr (Some x), ev1, log2))
   \<and> (chat u cl ev log = (Inr (Some c), ev3, log3) \<longrightarrow>
      chat u cl2 ev3 log2 = (Inr (Some c), ev3, log2))"
proof -
  have a: "input_chat u cl2 ev1 log2 = (Inr (Some x), ev1, log2)"
    if "input_chat u cl ev log = (Inr (Some x), ev1, log1)"
  proof -
    from that have "ev_input_chat ev1 = Some x"
      by (rule input_chat_field)
    then show ?thesis
      by (simp add: input_chat_def)
  qed
  have b: "chat u cl2 ev3 log2 = (Inr (Some c), ev3, log2)"
    if "chat u cl ev log = (Inr (Some c), ev3, log3)"
  proof -
    from that have "ev_chat ev3 = Some c"
      by (rule chat_field)
    then show ?thesis
      by (simp add: chat_def coroutine_truth_def)
  qed
  from a b show ?thesis by blast
qed

theorem lazy_properties_cached_witness:
  "input_chat example_utils friend_client
     ((init_event (Some (PeerUser 7)) None False)\<lparr>ev_input_chat := Some (InputPeerUser 7 99)\<rparr>)
     [GetInputEntity (PeerRef (PeerUser 7))]
   = (Inr (Some (InputPeerUser 7 99)),
      (init_event (Some (PeerUser 7)) None False)\<lparr>ev_input_chat := Some (InputPeerUser 7 99)\<rparr>,
      [GetInputEntity (PeerRef (PeerUser 7))])
   \<and> chat example_utils friend_client
     ((init_event (Some (PeerUser 7)) None False)
        \<lparr>ev_input_chat := Some (InputPeerUser 7 99), ev_chat := Some (User 7)\<rparr>)
     [GetInputEntity (PeerRef (PeerUser 7)), GetEntity (Some (InputPeerUser 7 99))]
   = (Inr (Some (User 7)),
      (init_event (Some (PeerUser 7)) None False)
        \<lparr>ev_input_chat := Some (InputPeerUser 7 99), ev_chat := Some (User 7)\<rparr>,
      [GetInputEntity (PeerRef (PeerUser 7)), GetEntity (Some (InputPeerUser 7 99))])"
proof -
  let ?ev = "init_event (Some (PeerUser 7)) None False"
  let ?ev1 = "?ev\<lparr>ev_input_chat := Some (InputPeerUser 7 99)\<rparr>"
  let ?ev2 = "?ev\<lparr>ev_input_chat := Some (InputPeerUser 7 99), ev_chat := Some (User 7)\<rparr>"
  let ?log1 = "[GetInputEntity (PeerRef (PeerUser 7))]"
  let ?log2 = "[GetInputEntity (PeerRef (PeerUser 7)), GetEntity (Some (InputPeerUser 7 99))]"
  have first_input_chat:
    "input_chat example_utils friend_client ?ev [] = (Inr (Some (InputPeerUser 7 99)), ?ev1, ?log1)"
    by (simp add: input_chat_def get_input_entity_def friend_client_def static_client_def
        init_event_def)
  have first_chat:
    "chat example_utils friend_client ?ev1 ?log1 = (Inr (Some (User 7)), ?ev2, ?log2)"
    by (simp add: chat_def coroutine_truth_def get_peer_id_def get_entity_def friend_client_def
        static_client_def init_event_def example_utils_def)
  show ?thesis
    using first_input_chat first_chat
      lazy_properties_cached [where u = example_utils and cl = friend_client and ev = ?ev
        and log = "[]" and x = "InputPeerUser 7 99" and ?ev1.0 = ?ev1 and ?log1.0 = ?log1
        and ?cl2.0 = friend_client and ?log2.0 = ?log1 and c = "User 7" and ?ev3.0 = ?ev2
        and ?log3.0 = ?log2]
      lazy_properties_cached [where u = example_utils and cl = friend_client and ev = ?ev1
        and log = ?log1 and x = "InputPeerUser 7 99" and ?ev1.0 = ?ev1 and ?log1.0 = ?log1
        and ?cl2.0 = friend_client and ?log2.0 = ?log2 and c = "User 7" and ?ev3.0 = ?ev2
        and ?log3.0 = ?log2]
    by simp
qed

text \<open>
  Claim C8, as amended. When \<^verbatim>\<open>input_chat\<close> returns \<^verbatim>\<open>None\<close>, \<^verbatim>\<open>_input_chat\<close> is still
  \<^verbatim>\<open>None\<close>, which is also what it is before any resolution: on an event with a chat peer
  a later access attempts the resolution again, starting with \<^verbatim>\<open>get_input_entity\<close> on the
  peer. Only an event without a chat peer gets its answer without any client call.
\<close>

theorem input_chat_absent_not_cached:
  "(input_chat u cl ev log = (Inr None, ev1, log1) \<and> ev_chat_peer ev = Some p \<longrightarrow>
      ev_input_chat ev1 = None \<and> ev_chat_peer ev1 = Some p
      \<and> (\<exists>r ev2 rest.
            input_chat u cl2 ev1 log2 = (r, ev2, log2 @ GetInputEntity (PeerRef p) # rest)))
   \<and> (ev_chat_peer ev = None \<longrightarrow> input_chat u cl ev log = (Inr (ev_input_chat ev), ev, log))"
proof -
  have a: "ev_input_chat ev1 = None \<and> ev_chat_peer ev1 = Some p
      \<and> (\<exists>r ev2 rest.
            input_chat u cl2 ev1 log2 = (r, ev2, log2 @ GetInputEntity (PeerRef p) # rest))"
    if run: "input_chat u cl ev log = (Inr None, ev1, log1)" and peer: "ev_chat_peer ev = Some p"
  proof -
    from run have f: "ev_input_chat ev1 = None"
      by (rule input_chat_field)
    from run peer have c: "ev_chat_peer ev1 = Some p"
      by (simp add: input_chat_chat_peer)
    from f c input_chat_attempt [OF f c] show ?thesis
      by blast
  qed
  have b: "ev_chat_peer ev = None \<longrightarrow> input_chat u cl ev log = (Inr (ev_input_chat ev), ev, log)"
    by (simp add: input_chat_def split: option.splits)
  from a b show ?thesis by blast
qed

theorem input_chat_absent_not_cached_witness:
  "ev_input_chat (init_event (Some (PeerChat 4)) (Some 12) False) = None
   \<and> ev_chat_peer (init_event (Some (PeerChat 4)) (Some 12) False) = Some (PeerChat 4)
   \<and> (\<exists>r ev2 rest.
        input_chat example_utils (nobody_client [])
          (init_event (Some (PeerChat 4)) (Some 12) False)
          [GetInputEntity (PeerRef (PeerChat 4)), GetMessages 12]
        = (r, ev2,
           [GetInputEntity (PeerRef (PeerChat 4)), GetMessages 12]
             @ GetInputEntity (PeerRef (PeerChat 4)) # rest))"
proof -
  let ?ev = "init_event (Some (PeerChat 4)) (Some 12) False"
  let ?cl = "static_client Map.empty (InputPeerUser 1 0)
               [12 \<mapsto> \<lparr>msg_chat = None, msg_input_chat = None\<rparr>] [] Map.empty"
  have first: "input_chat example_utils ?cl ?ev []
        = (Inr None, ?ev, [GetInputEntity (PeerRef (PeerChat 4)), GetMessages 12])"
    by (simp add: input_chat_def Let_def get_input_entity_def get_messages_def
        static_client_def init_event_def isinstance_PeerChannel_def)
  have peer: "ev_chat_peer ?ev = Some (PeerChat 4)"
    by (simp add: init_event_def)
  show ?thesis
    using first peer
      input_chat_absent_not_cached [where u = example_utils and cl = ?cl and ev = ?ev
        and log = "[]" and ?ev1.0 = ?ev
        and ?log1.0 = "[GetInputEntity (PeerRef (PeerChat 4)), GetMessages 12]"
        and p = "PeerChat 4" and ?cl2.0 = "nobody_client []"
        and ?log2.0 = "[GetInputEntity (PeerRef (PeerChat 4)), GetMessages 12]"]
    by simp
qed

text \<open>
  Claim C8 as stated fails: after an access that returned \<^verbatim>\<open>None\<close> (an unknown user,
  no message ID, no dialog), the next access calls \<^verbatim>\<open>get_input_entity\<close> and
  \<^verbatim>\<open>iter_dialogs\<close> again.
\<close>

theorem input_chat_absent_cached_counterexample:
  "input_chat example_utils (nobody_client []) (init_event (Some (PeerUser 7)) None False) []
     = (Inr None, init_event (Some (PeerUser 7)) None False,
        [GetInputEntity (PeerRef (PeerUser 7)), IterDialogs])
   \<and> input_chat example_utils (nobody_client []) (init_event (Some (PeerUser 7)) None False)
       [GetInputEntity (PeerRef (PeerUser 7)), IterDialogs]
     = (Inr None, init_event (Some (PeerUser 7)) None False,
        [GetInputEntity (PeerRef (PeerUser 7)), IterDialogs,
         GetInputEntity (PeerRef (PeerUser 7)), IterDialogs])"
  by (simp add: input_chat_def Let_def get_input_entity_def iter_dialogs_def nobody_client_def
      static_client_def init_event_def isinstance_PeerChannel_def)

subsection \<open>The lazy property \<^verbatim>\<open>chat\<close>\<close>

text \<open>
  Claim C2 does not hold of the code, whose guard \<^verbatim>\<open>if not self.input_chat\<close> tests a
  coroutine object instead of awaiting it. On an event whose \<^verbatim>\<open>input_chat\<close> resolves to
  \<^verbatim>\<open>None\<close> (a basic group nobody knows, no message ID, no dialog), \<^verbatim>\<open>chat\<close> goes on to
  \<^verbatim>\<open>get_entity(None)\<close>, whose exception it passes on; and with the group in the table
  \<^verbatim>\<open>_entities\<close>, \<^verbatim>\<open>chat\<close> returns the entity of the table.
\<close>

theorem chat_guard_not_awaited:
  "input_chat example_utils (nobody_client []) (init_event (Some (PeerChat 4)) None False) []
     = (Inr None, init_event (Some (PeerChat 4)) None False,
        [GetInputEntity (PeerRef (PeerChat 4)), IterDialogs])
   \<and> chat example_utils (nobody_client []) (init_event (Some (PeerChat 4)) None False)
       [GetInputEntity (PeerRef (PeerChat 4)), IterDialogs]
     = (Inl TypeError, init_event (Some (PeerChat 4)) None False,
        [GetInputEntity (PeerRef (PeerChat 4)), IterDialogs, GetEntity None])
   \<and> input_chat example_utils (nobody_client [])
       ((init_event (Some (PeerChat 4)) None False)\<lparr>ev_entities := [- 4 \<mapsto> Chat 4]\<rparr>) []
     = (Inr None, (init_event (Some (PeerChat 4)) None False)\<lparr>ev_entities := [- 4 \<mapsto> Chat 4]\<rparr>,
        [GetInputEntity (PeerRef (PeerChat 4)), IterDialogs])
   \<and> chat example_utils (nobody_client [])
       ((init_event (Some (PeerChat 4)) None False)\<lparr>ev_entities := [- 4 \<mapsto> Chat 4]\<rparr>)
       [GetInputEntity (PeerRef (PeerChat 4)), IterDialogs]
     = (Inr (Some (Chat 4)),
        (init_event (Some (PeerChat 4)) None False)
          \<lparr>ev_entities := [- 4 \<mapsto> Chat 4], ev_chat := Some (Chat 4)\<rparr>,
        [GetInputEntity (PeerRef (PeerChat 4)), IterDialogs])"
  by (simp add: input_chat_def chat_def coroutine_truth_def Let_def get_peer_id_def
      get_input_entity_def iter_dialogs_def get_entity_def nobody_client_def static_client_def
      example_utils_def init_event_def isinstance_PeerChannel_def)

end
